theory Spec2Isabelle
  imports Complex_Main
begin

section \<open>Numbers and the library functions of the source\<close>

text \<open>
  The program (\<^verbatim>\<open>src/main.py\<close>, \<^verbatim>\<open>src/vessel_data_script.py\<close>) computes with
  Python floats. A finite float is modelled as a \<^typ>\<open>real\<close> and every arithmetic
  operation is exact: rounding, signed zeros and infinities are not part of the
  model. What \<^verbatim>\<open>math\<close> does outside a function's domain is part of it:
  \<^verbatim>\<open>math.asin\<close> and \<^verbatim>\<open>math.sqrt\<close> raise \<^verbatim>\<open>ValueError\<close>, which is a value
  of the type \<open>error\<close> here. NaN is a cell of its own, see below.

  The model therefore cannot show an effect of rounding. Where an argument of
  \<^verbatim>\<open>asin\<close> or \<^verbatim>\<open>sqrt\<close> rounds out of the domain the program raises
  \<^verbatim>\<open>ValueError\<close> and the model returns, and a value the model gives exactly the
  program gives up to rounding. What is stated about a function below is stated for
  the case that it returns, or for inputs on which no rounding occurs; the facts that
  rest on exact arithmetic are lemmas marked as such, used to evaluate the examples.
\<close>

datatype error = KeyError string | TypeError | ValueError

text \<open>An exception propagates: the rest of the computation is skipped.\<close>

definition bind_err :: "error + 'a \<Rightarrow> ('a \<Rightarrow> error + 'b) \<Rightarrow> error + 'b" where
  "bind_err m f = (case m of Inl e \<Rightarrow> Inl e | Inr x \<Rightarrow> f x)"

definition radians :: "real \<Rightarrow> real" where
  "radians x = x * pi / 180"

definition degrees :: "real \<Rightarrow> real" where
  "degrees x = x * 180 / pi"

definition py_asin :: "real \<Rightarrow> error + real" where
  "py_asin x = (if - 1 \<le> x \<and> x \<le> 1 then Inr (arcsin x) else Inl ValueError)"

definition py_sqrt :: "real \<Rightarrow> error + real" where
  "py_sqrt x = (if 0 \<le> x then Inr (sqrt x) else Inl ValueError)"

text \<open>
  \<^verbatim>\<open>math.atan2(y, x)\<close>: the angle of the point \<open>(x, y)\<close>, in \<open>(-pi, pi]\<close>, and
  \<open>0\<close> at the origin (the C library's value for two positive zeros).
\<close>

definition atan2 :: "real \<Rightarrow> real \<Rightarrow> real" where
  "atan2 y x =
     (if 0 < x then arctan (y / x)
      else if x < 0 then (if 0 \<le> y then arctan (y / x) + pi else arctan (y / x) - pi)
      else if 0 < y then pi / 2
      else if y < 0 then - (pi / 2)
      else 0)"

section \<open>The geodesy functions of main.py\<close>

text \<open>
  \<^verbatim>\<open>predict_position\<close> (main.py, lines 60 to 72). The three conversions to
  radians rebind the parameters; \<open>delta\<close> is the source's
  \<^verbatim>\<open>distance_nm / earth_radius_nm\<close>, which it writes out four times.
\<close>

definition predict_position ::
    "real \<Rightarrow> real \<Rightarrow> real \<Rightarrow> real \<Rightarrow> real \<Rightarrow> error + real \<times> real" where
  "predict_position latitude longitude course speed time_minutes =
     (let lat = radians latitude; lon = radians longitude; crs = radians course;
          distance_nm = (speed / 60) * time_minutes;
          earth_radius_nm = 3440.065;
          delta = distance_nm / earth_radius_nm
      in case py_asin (sin lat * cos delta + cos lat * sin delta * cos crs) of
           Inl e \<Rightarrow> Inl e
         | Inr predicted_latitude \<Rightarrow>
             (let predicted_longitude = lon + atan2 (sin crs * sin delta * cos lat)
                                           (cos delta - sin lat * sin predicted_latitude)
              in Inr (degrees predicted_latitude, degrees predicted_longitude)))"

text \<open>\<^verbatim>\<open>haversine\<close> (main.py, lines 76 to 80); \<^verbatim>\<open>sqrt(a)\<close> is evaluated before
  \<^verbatim>\<open>sqrt(1 - a)\<close>.\<close>

definition haversine_a :: "real \<Rightarrow> real \<Rightarrow> real \<Rightarrow> real \<Rightarrow> real" where
  "haversine_a lat1 lon1 lat2 lon2 =
     (let delta_lat = radians (lat2 - lat1); delta_lon = radians (lon2 - lon1)
      in (sin (delta_lat / 2))\<^sup>2
           + cos (radians lat1) * cos (radians lat2) * (sin (delta_lon / 2))\<^sup>2)"

definition haversine :: "real \<Rightarrow> real \<Rightarrow> real \<Rightarrow> real \<Rightarrow> error + real" where
  "haversine lat1 lon1 lat2 lon2 =
     (let earth_radius_km = 6371;
          a = haversine_a lat1 lon1 lat2 lon2
      in case py_sqrt a of
           Inl e \<Rightarrow> Inl e
         | Inr sa \<Rightarrow>
             (case py_sqrt (1 - a) of
                Inl e \<Rightarrow> Inl e
              | Inr sb \<Rightarrow> Inr (2 * earth_radius_km * atan2 sa sb)))"

text \<open>\<^verbatim>\<open>is_point_within_circle\<close> (main.py, lines 84 and 85).\<close>

definition is_point_within_circle ::
    "real \<Rightarrow> real \<Rightarrow> real \<Rightarrow> real \<Rightarrow> real \<Rightarrow> error + bool" where
  "is_point_within_circle center_lat center_lon radius_km point_lat point_lon =
     (case haversine center_lat center_lon point_lat point_lon of
        Inl e \<Rightarrow> Inl e
      | Inr d \<Rightarrow> Inr (d \<le> radius_km))"

section \<open>Data frames\<close>

text \<open>
  A pandas \<^verbatim>\<open>DataFrame\<close> with the default \<^verbatim>\<open>RangeIndex\<close>: the ordered column
  names and the rows in index order, the row at position \<open>i\<close> carrying the index
  label \<open>i\<close>. A row (what \<^verbatim>\<open>iterrows\<close> yields) maps a column name to a cell. A
  cell is a number, NaN, a string or a boolean.
\<close>

datatype cell = Num real | NaN | Str string | Bool bool

type_synonym row = "string \<rightharpoonup> cell"

record dataframe =
  columns :: "string list"
  rows :: "row list"

text \<open>\<^verbatim>\<open>df.empty\<close>: true when an axis has length zero.\<close>

definition empty_df :: "dataframe \<Rightarrow> bool" where
  "empty_df df \<longleftrightarrow> columns df = [] \<or> rows df = []"

text \<open>\<^verbatim>\<open>row[k]\<close>: \<^verbatim>\<open>KeyError\<close> when the frame has no such column.\<close>

definition row_get :: "row \<Rightarrow> string \<Rightarrow> error + cell" where
  "row_get r k = (case r k of None \<Rightarrow> Inl (KeyError k) | Some v \<Rightarrow> Inr v)"

text \<open>\<^verbatim>\<open>df[name]\<close>: the column as a series, the value at position \<open>i\<close> labelled \<open>i\<close>.\<close>

definition get_column :: "dataframe \<Rightarrow> string \<Rightarrow> error + cell list" where
  "get_column df name =
     (if name \<in> set (columns df)
      then Inr (map (\<lambda>r. case r name of None \<Rightarrow> NaN | Some v \<Rightarrow> v) (rows df))
      else Inl (KeyError name))"

definition with_column :: "string list \<Rightarrow> string \<Rightarrow> string list" where
  "with_column cs name = (if name \<in> set cs then cs else cs @ [name])"

text \<open>
  \<^verbatim>\<open>df[name] = values\<close> for a Python list: the column is added, or overwritten when
  it exists; pandas raises \<^verbatim>\<open>ValueError\<close> when the list is not as long as the index.
\<close>

definition set_column :: "dataframe \<Rightarrow> string \<Rightarrow> cell list \<Rightarrow> error + dataframe" where
  "set_column df name vals =
     (if length vals = length (rows df)
      then Inr (df\<lparr>columns := with_column (columns df) name,
                    rows := map (\<lambda>(r, v). r(name \<mapsto> v)) (zip (rows df) vals)\<rparr>)
      else Inl ValueError)"

text \<open>
  \<^verbatim>\<open>df[name] = series\<close> for a series of another frame: pandas aligns on the index
  label. The row labelled \<open>i\<close> takes the series' value labelled \<open>i\<close>, and NaN when
  the series has no such label; values of the series beyond the frame's index are
  dropped.
\<close>

definition set_column_aligned :: "dataframe \<Rightarrow> string \<Rightarrow> cell list \<Rightarrow> dataframe" where
  "set_column_aligned df name series =
     df\<lparr>columns := with_column (columns df) name,
        rows := map (\<lambda>(i, r). r(name \<mapsto> (if i < length series then series ! i else NaN)))
                  (enumerate 0 (rows df))\<rparr>"

text \<open>
  A cell read as a float by \<^verbatim>\<open>math\<close> or by arithmetic: \<open>None\<close> stands for NaN, a
  boolean is the integer 0 or 1, a string raises \<^verbatim>\<open>TypeError\<close>.
\<close>

fun to_float :: "cell \<Rightarrow> error + real option" where
  "to_float (Num x) = Inr (Some x)"
| "to_float NaN = Inr None"
| "to_float (Bool b) = Inr (Some (if b then 1 else 0))"
| "to_float (Str s) = Inl TypeError"

section \<open>Fetching: get_vessel_data\<close>

text \<open>
  The outcome of the HTTP call is a parameter: either a \<^verbatim>\<open>RequestException\<close> raised
  inside the \<^verbatim>\<open>try\<close> block (connection failure, timeout, error status, a body
  that is not JSON), or the parsed body, a JSON array of objects.
\<close>

datatype api_result = RequestException string | Json "row list"

definition keys_to_include :: "string list" where
  "keys_to_include =
     [''MMSI'', ''NAME'', ''LATITUDE'', ''LONGITUDE'', ''COG'', ''SOG'', ''VESSEL_TYPE'']"

text \<open>A row of \<^verbatim>\<open>pd.DataFrame(response_data)[keys]\<close>: a key the object lacks is NaN.\<close>

definition select_row :: "string list \<Rightarrow> row \<Rightarrow> row" where
  "select_row ks r =
     (\<lambda>k. if k \<in> set ks then (case r k of None \<Rightarrow> Some NaN | Some v \<Rightarrow> Some v) else None)"

text \<open>
  \<^verbatim>\<open>get_vessel_data\<close> (main.py, lines 44 to 56). The columns of
  \<^verbatim>\<open>pd.DataFrame(response_data)\<close> are the keys of all the objects, and selecting a
  key that is no column raises \<^verbatim>\<open>KeyError\<close>, which the \<^verbatim>\<open>except\<close> clause does
  not catch. On a \<^verbatim>\<open>RequestException\<close> the function returns a frame of one row and
  one column, \<^verbatim>\<open>error\<close> (the message starts with a non-ASCII mark in the source,
  left out here).
\<close>

definition get_vessel_data :: "api_result \<Rightarrow> error + dataframe" where
  "get_vessel_data response =
     (case response of
        RequestException e \<Rightarrow>
          Inr \<lparr>columns = [''error''],
               rows = [[''error'' \<mapsto> Str (''API call failed: '' @ e)]]\<rparr>
      | Json response_data \<Rightarrow>
          (case filter (\<lambda>k. \<not> list_ex (\<lambda>r. r k \<noteq> None) response_data) keys_to_include of
             [] \<Rightarrow> Inr \<lparr>columns = keys_to_include,
                        rows = map (select_row keys_to_include) response_data\<rparr>
           | k # _ \<Rightarrow> Inl (KeyError k)))"

section \<open>Batch prediction and classification\<close>

text \<open>
  \<^verbatim>\<open>predict_position\<close> applied to the cells of a row. NaN propagates through every
  operation without an exception: the predicted latitude is NaN when the latitude,
  the course or the speed is, the predicted longitude when any of the four is.
\<close>

definition predict_position_cells ::
    "cell \<Rightarrow> cell \<Rightarrow> cell \<Rightarrow> cell \<Rightarrow> real \<Rightarrow> error + cell \<times> cell" where
  "predict_position_cells latitude longitude course speed time_minutes =
     bind_err (to_float latitude) (\<lambda>lat.
     bind_err (to_float longitude) (\<lambda>lon.
     bind_err (to_float course) (\<lambda>crs.
     bind_err (to_float speed) (\<lambda>spd.
       (case (lat, crs, spd) of
          (Some la, Some c, Some s) \<Rightarrow>
            bind_err (predict_position la (case lon of None \<Rightarrow> 0 | Some lo \<Rightarrow> lo) c s
                        time_minutes)
              (\<lambda>(plat, plon). Inr (Num plat, (case lon of None \<Rightarrow> NaN | Some lo \<Rightarrow> Num plon)))
        | _ \<Rightarrow> Inr (NaN, NaN))))))"

text \<open>The first two statements of the loop body of \<^verbatim>\<open>predict_future_positions\<close>
  (main.py, lines 95 and 96).\<close>

definition predict_row :: "row \<Rightarrow> real \<Rightarrow> error + cell \<times> cell" where
  "predict_row r time_minutes =
     bind_err (row_get r ''LATITUDE'') (\<lambda>lat.
     bind_err (row_get r ''LONGITUDE'') (\<lambda>lon.
     bind_err (row_get r ''COG'') (\<lambda>cog.
     bind_err (row_get r ''SOG'') (\<lambda>sog.
       predict_position_cells lat lon cog sog time_minutes))))"

text \<open>The loop of \<^verbatim>\<open>predict_future_positions\<close> (lines 94 to 98), with its two
  accumulators.\<close>

fun predict_loop ::
    "row list \<Rightarrow> real \<Rightarrow> cell list \<Rightarrow> cell list \<Rightarrow> error + cell list \<times> cell list" where
  "predict_loop [] time_minutes predicted_latitudes predicted_longitudes =
     Inr (predicted_latitudes, predicted_longitudes)"
| "predict_loop (r # rest) time_minutes predicted_latitudes predicted_longitudes =
     (case predict_row r time_minutes of
        Inl e \<Rightarrow> Inl e
      | Inr (predicted_lat, predicted_lon) \<Rightarrow>
          predict_loop rest time_minutes (predicted_latitudes @ [predicted_lat])
            (predicted_longitudes @ [predicted_lon]))"

text \<open>\<^verbatim>\<open>predict_future_positions\<close> (main.py, lines 89 to 103). The source updates
  the frame in place and returns it; the model returns the updated frame.\<close>

definition predict_future_positions :: "dataframe \<Rightarrow> real \<Rightarrow> error + dataframe" where
  "predict_future_positions df time_minutes =
     (case predict_loop (rows df) time_minutes [] [] of
        Inl e \<Rightarrow> Inl e
      | Inr (predicted_latitudes, predicted_longitudes) \<Rightarrow>
          (case set_column df ''PREDICTED_LATITUDE'' predicted_latitudes of
             Inl e \<Rightarrow> Inl e
           | Inr df1 \<Rightarrow> set_column df1 ''PREDICTED_LONGITUDE'' predicted_longitudes))"

text \<open>
  \<^verbatim>\<open>is_point_within_circle\<close> applied to the cells of a row: with a NaN operand
  the distance is NaN and the comparison \<^verbatim>\<open><=\<close> is false.
\<close>

definition is_point_within_circle_cells ::
    "cell \<Rightarrow> cell \<Rightarrow> real \<Rightarrow> cell \<Rightarrow> cell \<Rightarrow> error + bool" where
  "is_point_within_circle_cells center_lat center_lon radius_km point_lat point_lon =
     bind_err (to_float center_lat) (\<lambda>clat.
     bind_err (to_float center_lon) (\<lambda>clon.
     bind_err (to_float point_lat) (\<lambda>plat.
     bind_err (to_float point_lon) (\<lambda>plon.
       (case (clat, clon, plat, plon) of
          (Some a, Some b, Some c, Some d) \<Rightarrow> is_point_within_circle a b radius_km c d
        | _ \<Rightarrow> Inr False)))))"

text \<open>The loop body of \<^verbatim>\<open>check_within_radius\<close> (main.py, lines 118 to 122).\<close>

definition within_row :: "row \<Rightarrow> real \<Rightarrow> error + bool" where
  "within_row r radius_km =
     bind_err (row_get r ''PREDICTED_LATITUDE'') (\<lambda>predicted_lat.
     bind_err (row_get r ''PREDICTED_LONGITUDE'') (\<lambda>predicted_lon.
     bind_err (row_get r ''NEW_LATITUDE'') (\<lambda>new_lat.
     bind_err (row_get r ''NEW_LONGITUDE'') (\<lambda>new_lon.
       is_point_within_circle_cells predicted_lat predicted_lon radius_km new_lat new_lon))))"

fun within_loop :: "row list \<Rightarrow> real \<Rightarrow> cell list \<Rightarrow> error + cell list" where
  "within_loop [] radius_km results = Inr results"
| "within_loop (r # rest) radius_km results =
     (case within_row r radius_km of
        Inl e \<Rightarrow> Inl e
      | Inr b \<Rightarrow> within_loop rest radius_km (results @ [Bool b]))"

text \<open>\<^verbatim>\<open>check_within_radius\<close> (main.py, lines 115 to 124).\<close>

definition check_within_radius :: "dataframe \<Rightarrow> real \<Rightarrow> error + dataframe" where
  "check_within_radius df radius_km =
     (case within_loop (rows df) radius_km [] of
        Inl e \<Rightarrow> Inl e
      | Inr results \<Rightarrow> set_column df ''WITHIN_RADIUS'' results)"

section \<open>The sampling cycle\<close>

text \<open>
  The two assignments that attach the second fetch to the predictions
  (main.py, lines 155 and 156; vessel_data_script.py, lines 56 and 57).
\<close>

definition pair_new_positions :: "dataframe \<Rightarrow> dataframe \<Rightarrow> error + dataframe" where
  "pair_new_positions vessel_data new_vessel_data =
     (case get_column new_vessel_data ''LATITUDE'' of
        Inl e \<Rightarrow> Inl e
      | Inr new_latitude \<Rightarrow>
          (case get_column new_vessel_data ''LONGITUDE'' of
             Inl e \<Rightarrow> Inl e
           | Inr new_longitude \<Rightarrow>
               Inr (set_column_aligned
                      (set_column_aligned vessel_data ''NEW_LATITUDE'' new_latitude)
                      ''NEW_LONGITUDE'' new_longitude)))"

text \<open>
  One iteration of the loop of \<^verbatim>\<open>retrieve_vessel_data_periodically\<close>
  (vessel_data_script.py, lines 49 to 76), given the outcomes of its two HTTP calls;
  the second call is made only when the first frame is not empty. The result is
  the frame that is saved and collected, or \<open>None\<close> on the branch
  ``No vessel data for request''.
\<close>

definition retrieve_iteration ::
    "api_result \<Rightarrow> api_result \<Rightarrow> real \<Rightarrow> real \<Rightarrow> error + dataframe option" where
  "retrieve_iteration first second prediction_time_minutes radius_km =
     (case get_vessel_data first of
        Inl e \<Rightarrow> Inl e
      | Inr vessel_data \<Rightarrow>
          if \<not> empty_df vessel_data then
            (case predict_future_positions vessel_data prediction_time_minutes of
               Inl e \<Rightarrow> Inl e
             | Inr predicted \<Rightarrow>
                 (case get_vessel_data second of
                    Inl e \<Rightarrow> Inl e
                  | Inr new_vessel_data \<Rightarrow>
                      if \<not> empty_df new_vessel_data then
                        (case pair_new_positions predicted new_vessel_data of
                           Inl e \<Rightarrow> Inl e
                         | Inr paired \<Rightarrow> map_sum id Some (check_within_radius paired radius_km))
                      else Inr (Some predicted)))
          else Inr None)"

text \<open>
  The main program of main.py (lines 128 to 170). \<^verbatim>\<open>result\<close> and
  \<^verbatim>\<open>predicted_df\<close> are one object, so the test of line 164 and the second
  prediction (line 165) see the frame as the first pass left it. The result is the
  frame handed to \<^verbatim>\<open>visualize_ships\<close>, or \<open>None\<close> on the branches that only
  print a message.
\<close>

definition main_program ::
    "api_result \<Rightarrow> api_result \<Rightarrow> real \<Rightarrow> real \<Rightarrow> error + dataframe option" where
  "main_program first second prediction_time_minutes radius_km =
     (case get_vessel_data first of
        Inl e \<Rightarrow> Inl e
      | Inr result \<Rightarrow>
          if empty_df result then Inr None
          else
            (case predict_future_positions result prediction_time_minutes of
               Inl e \<Rightarrow> Inl e
             | Inr predicted_df \<Rightarrow>
                 (case get_vessel_data second of
                    Inl e \<Rightarrow> Inl e
                  | Inr new_result \<Rightarrow>
                      (case (if \<not> empty_df new_result
                             then (case pair_new_positions predicted_df new_result of
                                     Inl e \<Rightarrow> Inl e
                                   | Inr paired \<Rightarrow> check_within_radius paired radius_km)
                             else Inr predicted_df) of
                         Inl e \<Rightarrow> Inl e
                       | Inr result2 \<Rightarrow>
                           if \<not> empty_df result2 then
                             (case predict_future_positions result2 prediction_time_minutes of
                                Inl e \<Rightarrow> Inl e
                              | Inr again \<Rightarrow>
                                  map_sum id Some (check_within_radius again radius_km))
                           else Inr None))))"

section \<open>Example data\<close>

text \<open>An object of the API's JSON array, with the seven keys the program selects.\<close>

definition vessel :: "real \<Rightarrow> string \<Rightarrow> real \<Rightarrow> real \<Rightarrow> real \<Rightarrow> real \<Rightarrow> row" where
  "vessel mmsi name lat lon cog sog =
     [''MMSI'' \<mapsto> Num mmsi, ''NAME'' \<mapsto> Str name, ''LATITUDE'' \<mapsto> Num lat,
      ''LONGITUDE'' \<mapsto> Num lon, ''COG'' \<mapsto> Num cog, ''SOG'' \<mapsto> Num sog,
      ''VESSEL_TYPE'' \<mapsto> Str ''Cargo'']"

text \<open>
  The frame of two stationary vessels, and the frame \<^verbatim>\<open>predict_future_positions\<close>
  turns it into.
\<close>

definition example_frame :: dataframe where
  "example_frame =
     \<lparr>columns = keys_to_include,
      rows = [vessel 111 ''A'' 0 0 0 0, vessel 222 ''B'' 10 10 0 0]\<rparr>"

definition example_predicted :: dataframe where
  "example_predicted =
     \<lparr>columns = keys_to_include @ [''PREDICTED_LATITUDE'', ''PREDICTED_LONGITUDE''],
      rows = [(vessel 111 ''A'' 0 0 0 0)(''PREDICTED_LATITUDE'' \<mapsto> Num 0,
                                         ''PREDICTED_LONGITUDE'' \<mapsto> Num 0),
              (vessel 222 ''B'' 10 10 0 0)(''PREDICTED_LATITUDE'' \<mapsto> Num 10,
                                           ''PREDICTED_LONGITUDE'' \<mapsto> Num 10)]\<rparr>"

text \<open>
  Scenario E of the specification: a batch with one record of speed \<open>-1\<close> and one
  valid record, and the frame \<^verbatim>\<open>predict_future_positions\<close> turns it into.
\<close>

definition scenario_E_frame :: dataframe where
  "scenario_E_frame =
     \<lparr>columns = keys_to_include,
      rows = [vessel 111 ''A'' 0 0 0 (- 1), vessel 222 ''B'' 0 0 0 12]\<rparr>"

definition scenario_E_predicted :: dataframe where
  "scenario_E_predicted =
     \<lparr>columns = keys_to_include @ [''PREDICTED_LATITUDE'', ''PREDICTED_LONGITUDE''],
      rows = [(vessel 111 ''A'' 0 0 0 (- 1))
                (''PREDICTED_LATITUDE'' \<mapsto> Num (degrees (- 1 / 60 * 10 / 3440.065)),
                 ''PREDICTED_LONGITUDE'' \<mapsto> Num 0),
              (vessel 222 ''B'' 0 0 0 12)
                (''PREDICTED_LATITUDE'' \<mapsto> Num (degrees (12 / 60 * 10 / 3440.065)),
                 ''PREDICTED_LONGITUDE'' \<mapsto> Num 0)]\<rparr>"

text \<open>
  Two fetches of the same two stationary vessels, the second listing them in the
  opposite order; a second fetch that lost a vessel; and the frame the two
  assignments of the pairing step produce from \<open>example_predicted\<close> and the second
  fetch.
\<close>

definition example_first_response :: api_result where
  "example_first_response = Json [vessel 111 ''A'' 0 0 0 0, vessel 222 ''B'' 10 10 0 0]"

definition example_second_response :: api_result where
  "example_second_response = Json [vessel 222 ''B'' 10 10 0 0, vessel 111 ''A'' 0 0 0 0]"

definition example_second_frame :: dataframe where
  "example_second_frame =
     \<lparr>columns = keys_to_include,
      rows = [vessel 222 ''B'' 10 10 0 0, vessel 111 ''A'' 0 0 0 0]\<rparr>"

definition example_short_frame :: dataframe where
  "example_short_frame =
     \<lparr>columns = keys_to_include, rows = [vessel 222 ''B'' 10 10 0 0]\<rparr>"

definition example_paired :: dataframe where
  "example_paired =
     \<lparr>columns = keys_to_include @ [''PREDICTED_LATITUDE'', ''PREDICTED_LONGITUDE'',
                                     ''NEW_LATITUDE'', ''NEW_LONGITUDE''],
      rows = [(vessel 111 ''A'' 0 0 0 0)(''PREDICTED_LATITUDE'' \<mapsto> Num 0,
                                         ''PREDICTED_LONGITUDE'' \<mapsto> Num 0,
                                         ''NEW_LATITUDE'' \<mapsto> Num 10,
                                         ''NEW_LONGITUDE'' \<mapsto> Num 10),
              (vessel 222 ''B'' 10 10 0 0)(''PREDICTED_LATITUDE'' \<mapsto> Num 10,
                                           ''PREDICTED_LONGITUDE'' \<mapsto> Num 10,
                                           ''NEW_LATITUDE'' \<mapsto> Num 0,
                                           ''NEW_LONGITUDE'' \<mapsto> Num 0)]\<rparr>"

section \<open>Facts about the library functions\<close>

lemma atan2_bounds: "- pi < atan2 y x \<and> atan2 y x \<le> pi"
proof -
  have b: "- (pi / 2) < arctan (y / x)" "arctan (y / x) < pi / 2"
    by (rule arctan_lbound, rule arctan_ubound)
  have neg: "x < 0 \<Longrightarrow> 0 \<le> y \<Longrightarrow> arctan (y / x) \<le> 0"
    by (simp add: divide_nonneg_neg)
  have pos: "x < 0 \<Longrightarrow> y < 0 \<Longrightarrow> 0 < arctan (y / x)"
    by (simp add: divide_neg_neg)
  show ?thesis
    using b neg pos pi_gt_zero by (auto simp: atan2_def)
qed

lemma atan2_zero_nonneg: "0 \<le> x \<Longrightarrow> atan2 0 x = 0"
  by (simp add: atan2_def)


lemma degrees_radians: "degrees (radians x) = x"
  by (simp add: degrees_def radians_def)

lemma radians_diff: "radians (x - y) = radians x - radians y"
  by (simp add: radians_def diff_divide_distrib left_diff_distrib)

lemma radians_add_180: "radians (x + 180) = radians x + pi"
  by (simp add: radians_def add_divide_distrib distrib_right)


lemma degrees_mono: "x \<le> y \<Longrightarrow> degrees x \<le> degrees y"
  by (simp add: degrees_def divide_right_mono)

lemma degrees_pi: "degrees pi = 180"
  by (simp add: degrees_def)

lemma degrees_minus: "degrees (- x) = - degrees x"
  by (simp add: degrees_def)

section \<open>In exact arithmetic the arguments of asin and sqrt stay in their domains\<close>

text \<open>
  The argument of \<^verbatim>\<open>asin\<close> in \<^verbatim>\<open>predict_position\<close> is a convex combination of
  \<open>sin (lat + delta)\<close> and \<open>sin (lat - delta)\<close>, with the weights
  \<open>(1 + cos crs) / 2\<close> and \<open>(1 - cos crs) / 2\<close>.
\<close>

lemma asin_argument_convex:
  fixes lat dl crs :: real
  shows "sin lat * cos dl + cos lat * sin dl * cos crs =
     (1 + cos crs) / 2 * sin (lat + dl) + (1 - cos crs) / 2 * sin (lat - dl)"
  by (simp add: sin_add sin_diff field_simps)

lemma convex_bounded:
  fixes w :: real
  assumes "0 \<le> w" "w \<le> 1" "- 1 \<le> p" "p \<le> 1" "- 1 \<le> q" "q \<le> 1"
  shows "- 1 \<le> w * p + (1 - w) * q \<and> w * p + (1 - w) * q \<le> 1"
proof -
  have a: "w * p \<le> w * 1" "w * (- 1) \<le> w * p"
    using assms by (intro mult_left_mono; simp)+
  have b: "(1 - w) * q \<le> (1 - w) * 1" "(1 - w) * (- 1) \<le> (1 - w) * q"
    using assms by (intro mult_left_mono; simp)+
  from a b show ?thesis by simp
qed

lemma weight_bounds:
  fixes c :: real
  assumes "- 1 \<le> c" "c \<le> 1"
  shows "0 \<le> (1 + c) / 2" "(1 + c) / 2 \<le> 1" "(1 - c) / 2 = 1 - (1 + c) / 2"
  using assms by (simp_all add: field_simps)

lemma asin_argument_bounded:
  fixes lat dl crs :: real
  shows "- 1 \<le> sin lat * cos dl + cos lat * sin dl * cos crs \<and>
   sin lat * cos dl + cos lat * sin dl * cos crs \<le> 1"
proof -
  have c: "- 1 \<le> cos crs" "cos crs \<le> 1"
    by simp_all
  have "- 1 \<le> (1 + cos crs) / 2 * sin (lat + dl) + (1 - (1 + cos crs) / 2) * sin (lat - dl) \<and>
        (1 + cos crs) / 2 * sin (lat + dl) + (1 - (1 + cos crs) / 2) * sin (lat - dl) \<le> 1"
    using weight_bounds(1,2) [OF c] by (intro convex_bounded) simp_all
  then show ?thesis
    unfolding asin_argument_convex [of lat dl crs] weight_bounds(3) [OF c] .
qed

text \<open>
  The haversine term: with \<open>h = sin\<^sup>2 ((y - x) / 2)\<close> the product \<open>cos x * cos y\<close>
  lies between \<open>- h\<close> and \<open>1 - h\<close>, so that \<open>h + cos x * cos y * s\<close> lies in
  \<open>[0, 1]\<close> for every \<open>s\<close> in \<open>[0, 1]\<close>.
\<close>

lemma cos_product_bounds:
  fixes x y :: real
  shows "- (sin ((y - x) / 2))\<^sup>2 \<le> cos x * cos y"
    and "cos x * cos y \<le> 1 - (sin ((y - x) / 2))\<^sup>2"
proof -
  have "cos (2 * ((y - x) / 2)) = 1 - 2 * (sin ((y - x) / 2))\<^sup>2"
    by (rule cos_double_sin)
  moreover have "2 * ((y - x) / 2) = y - x"
    by simp
  ultimately have d: "cos (y - x) = 1 - 2 * (sin ((y - x) / 2))\<^sup>2"
    by (simp only:)
  have p: "2 * (cos x * cos y) = cos (y - x) + cos (y + x)"
    by (simp add: cos_add cos_diff)
  have c: "- 1 \<le> cos (y + x)" "cos (y + x) \<le> 1"
    by simp_all
  define u where "u = cos (y + x)"
  define v where "v = cos x * cos y"
  define h where "h = (sin ((y - x) / 2))\<^sup>2"
  have "2 * v = 1 - 2 * h + u" "- 1 \<le> u" "u \<le> 1"
    using d p c by (simp_all add: u_def v_def h_def)
  then have "- h \<le> v" "v \<le> 1 - h"
    by linarith+
  then show "- (sin ((y - x) / 2))\<^sup>2 \<le> cos x * cos y"
    and "cos x * cos y \<le> 1 - (sin ((y - x) / 2))\<^sup>2"
    by (simp_all add: v_def h_def)
qed

lemma haversine_term_bounded:
  fixes h p s :: real
  assumes "0 \<le> h" "h \<le> 1" "- h \<le> p" "p \<le> 1 - h" "0 \<le> s" "s \<le> 1"
  shows "0 \<le> h + p * s \<and> h + p * s \<le> 1"
proof (cases "0 \<le> p")
  case True
  have "0 \<le> p * s" using True assms by simp
  moreover have "p * s \<le> p * 1"
    using True assms by (intro mult_left_mono) simp_all
  ultimately show ?thesis using assms by simp
next
  case False
  then have "p * s \<le> 0" 
    using assms by (simp add: mult_le_0_iff)
  moreover have "p * 1 \<le> p * s"
    using False assms by (intro mult_left_mono_neg) simp_all
  ultimately show ?thesis using assms by simp
qed

lemma sin_sq_bounds: 
  fixes x :: real shows "0 \<le> (sin x)\<^sup>2" "(sin x)\<^sup>2 \<le> 1"
   by (simp_all add: abs_square_le_1)


lemma haversine_a_bounded:
  "0 \<le> haversine_a lat1 lon1 lat2 lon2 \<and> haversine_a lat1 lon1 lat2 lon2 \<le> 1"
proof -
  let ?h = "(sin ((radians lat2 - radians lat1) / 2))\<^sup>2"
  let ?s = "(sin (radians (lon2 - lon1) / 2))\<^sup>2"
  have "0 \<le> ?h + cos (radians lat1) * cos (radians lat2) * ?s \<and>
        ?h + cos (radians lat1) * cos (radians lat2) * ?s \<le> 1"
    by (intro haversine_term_bounded sin_sq_bounds cos_product_bounds)
  then show ?thesis
    by (simp add: haversine_a_def Let_def radians_diff)
qed

section \<open>In exact arithmetic the geodesy functions never raise\<close>

text \<open>
  The lemmas of this section hold of the model, not of the program: they use that
  no operation rounds.
\<close>

lemma predict_position_Inr:
  "predict_position latitude longitude course speed time_minutes =
     Inr (degrees (arcsin (sin (radians latitude) * cos (speed / 60 * time_minutes / 3440.065)
                            + cos (radians latitude) * sin (speed / 60 * time_minutes / 3440.065)
                                * cos (radians course))),
          degrees (radians longitude +
            atan2 (sin (radians course) * sin (speed / 60 * time_minutes / 3440.065)
                     * cos (radians latitude))
                  (cos (speed / 60 * time_minutes / 3440.065)
                     - sin (radians latitude)
                       * sin (arcsin (sin (radians latitude)
                                        * cos (speed / 60 * time_minutes / 3440.065)
                                      + cos (radians latitude)
                                        * sin (speed / 60 * time_minutes / 3440.065)
                                        * cos (radians course))))))"
  using asin_argument_bounded [of "radians latitude" "speed / 60 * time_minutes / 3440.065"
      "radians course"]
  by (simp add: predict_position_def py_asin_def Let_def)

lemma haversine_Inr:
  "haversine lat1 lon1 lat2 lon2 =
     Inr (2 * 6371 * atan2 (sqrt (haversine_a lat1 lon1 lat2 lon2))
                           (sqrt (1 - haversine_a lat1 lon1 lat2 lon2)))"
  using haversine_a_bounded [of lat1 lon1 lat2 lon2]
  by (simp add: haversine_def py_sqrt_def Let_def)

lemma haversine_a_sym: "haversine_a lat1 lon1 lat2 lon2 = haversine_a lat2 lon2 lat1 lon1"
proof -
  have r: "radians (lat1 - lat2) = - radians (lat2 - lat1)"
          "radians (lon1 - lon2) = - radians (lon2 - lon1)"
    by (simp_all add: radians_diff)
  show ?thesis
    unfolding haversine_a_def Let_def r by (simp add: mult.commute)
qed

lemma haversine_a_same_point: "haversine_a lat lon lat lon = 0"
  by (simp add: haversine_a_def Let_def radians_def)

lemma haversine_same_point: "haversine lat lon lat lon = Inr 0"
  by (simp add: haversine_def haversine_a_same_point py_sqrt_def atan2_def)

lemma radians_quarter_turn: 
  assumes "- 90 \<le> x" "x \<le> 90"
  shows "- (pi / 2) \<le> radians x" "radians x \<le> pi / 2"
proof -
  have "(- 90) * pi \<le> x * pi" "x * pi \<le> 90 * pi"
    using assms by (intro mult_right_mono; simp)+
  then show "- (pi / 2) \<le> radians x" "radians x \<le> pi / 2"
    by (simp_all add: radians_def)
qed

lemma degrees_arcsin_range:
  assumes "- 1 \<le> x \<and> x \<le> 1"
  shows "- 90 \<le> degrees (arcsin x) \<and> degrees (arcsin x) \<le> 90"
proof -
  have "- (pi / 2) \<le> arcsin x" and "arcsin x \<le> pi / 2"
    using assms by (blast intro: arcsin_lbound arcsin_ubound)+
  then have "degrees (- (pi / 2)) \<le> degrees (arcsin x)"
    and "degrees (arcsin x) \<le> degrees (pi / 2)"
    by (blast intro: degrees_mono)+
  moreover have "degrees (- (pi / 2)) = - 90" "degrees (pi / 2) = 90"
    by (simp_all add: degrees_def)
  ultimately show ?thesis
    by (simp only:)
qed

lemma degrees_strict_mono: "x < y \<Longrightarrow> degrees x < degrees y"
  by (simp add: degrees_def divide_strict_right_mono)

lemma degrees_atan2_range: "- 180 < degrees (atan2 y x) \<and> degrees (atan2 y x) \<le> 180"
proof -
  have "- pi < atan2 y x" and "atan2 y x \<le> pi"
    using atan2_bounds [of y x] by blast+
  then have "degrees (- pi) < degrees (atan2 y x)" and "degrees (atan2 y x) \<le> degrees pi"
    by (blast intro: degrees_strict_mono degrees_mono)+
  then show ?thesis
    by (simp add: degrees_minus degrees_pi)
qed

lemma one_minus_sin_squared: 
  fixes r :: real shows "1 - sin r * sin r = cos r * cos r"
  using sin_cos_squared_add3 [of r] by linarith

lemma predict_position_zero_distance:
  assumes "- 90 \<le> latitude" "latitude \<le> 90" "speed / 60 * time_minutes = 0"
  shows "predict_position latitude longitude course speed time_minutes = Inr (latitude, longitude)"
proof -
  let ?r = "radians latitude"
  have a: "arcsin (sin ?r) = ?r"
    using radians_quarter_turn [OF assms(1,2)] by (rule arcsin_sin)
  have b: "atan2 0 (1 - sin ?r * sin ?r) = 0"
    unfolding one_minus_sin_squared by (rule atan2_zero_nonneg) simp
  show ?thesis
    unfolding predict_position_Inr assms(3) by (simp add: a b degrees_radians)
qed


section \<open>What a result of predict_position looks like\<close>

text \<open>
  Whenever \<^verbatim>\<open>predict_position\<close> returns, its latitude is the arcsine of a value
  that passed the domain check of \<^verbatim>\<open>asin\<close>, and its longitude is the input
  longitude plus a value of \<^verbatim>\<open>atan2\<close>. Nothing here depends on rounding.
\<close>

lemma predict_position_result:
  assumes "predict_position latitude longitude course speed time_minutes = Inr (plat, plon)"
  shows "\<exists>x offset. - 1 \<le> x \<and> x \<le> 1 \<and> plat = degrees (arcsin x) \<and>
           - pi < offset \<and> offset \<le> pi \<and> plon = degrees (radians longitude + offset)"
proof -
  let ?x = "sin (radians latitude) * cos (speed / 60 * time_minutes / 3440.065)
              + cos (radians latitude) * sin (speed / 60 * time_minutes / 3440.065)
                  * cos (radians course)"
  let ?off = "atan2 (sin (radians course) * sin (speed / 60 * time_minutes / 3440.065)
                        * cos (radians latitude))
                    (cos (speed / 60 * time_minutes / 3440.065)
                        - sin (radians latitude) * sin (arcsin ?x))"
  have r: "- 1 \<le> ?x \<and> ?x \<le> 1 \<and> plat = degrees (arcsin ?x)
             \<and> plon = degrees (radians longitude + ?off)"
    using assms
    by (simp add: predict_position_def py_asin_def Let_def split: if_splits)
  moreover have "- pi < ?off \<and> ?off \<le> pi"
    by (rule atan2_bounds)
  ultimately show ?thesis
    by blast
qed

section \<open>Claims about the geodesy functions\<close>

text \<open>
  Claim C10. Whenever \<^verbatim>\<open>predict_position\<close> returns a position, its latitude lies
  in \<open>[-90, 90]\<close>: it is the arcsine of a value in \<open>[-1, 1]\<close>, converted to
  degrees.
\<close>

theorem predicted_latitude_in_range:
  assumes "predict_position latitude longitude course speed time_minutes = Inr (plat, plon)"
  shows "- 90 \<le> plat \<and> plat \<le> 90"
proof -
  from predict_position_result [OF assms]
  obtain x where "- 1 \<le> x \<and> x \<le> 1" and "plat = degrees (arcsin x)"
    by blast
  then show ?thesis
    using degrees_arcsin_range [of x] by simp
qed

theorem predicted_latitude_in_range_witness:
  "predict_position 0 0 0 0 10 = Inr (0, 0) \<and> - 90 \<le> (0::real) \<and> (0::real) \<le> 90 \<and>
   predict_position 90 0 0 0 0 = Inr (90, 0) \<and> - 90 \<le> (90::real) \<and> (90::real) \<le> 90"
proof -
  have a: "predict_position 0 0 0 0 10 = Inr (0, 0)"
    by (rule predict_position_zero_distance) simp_all
  have b: "predict_position 90 0 0 0 0 = Inr (90, 0)"
    by (rule predict_position_zero_distance) simp_all
  from a b predicted_latitude_in_range [OF a] predicted_latitude_in_range [OF b]
  show ?thesis by simp
qed

text \<open>
  Claim C7. \<^verbatim>\<open>haversine\<close> is symmetric in its two points, and the distance of a
  point to itself is 0.
\<close>

theorem haversine_symmetric_and_zero:
  "haversine lat1 lon1 lat2 lon2 = haversine lat2 lon2 lat1 lon1 \<and>
   haversine lat lon lat lon = Inr 0"
proof
  show "haversine lat1 lon1 lat2 lon2 = haversine lat2 lon2 lat1 lon1"
    unfolding haversine_Inr by (simp add: haversine_a_sym [of lat1 lon1 lat2 lon2])
  show "haversine lat lon lat lon = Inr 0"
    by (rule haversine_same_point)
qed

text \<open>
  Claim C6. \<^verbatim>\<open>is_point_within_circle\<close> is the result of \<^verbatim>\<open>haversine\<close> compared
  with the radius by \<open>\<le>\<close>, an exception of \<^verbatim>\<open>haversine\<close> passed on: when the
  distance is \<open>d\<close> it returns whether \<open>d\<close> is at most the radius, and true when
  \<open>d\<close> equals the radius.
\<close>

theorem within_circle_iff_distance_le_radius:
  "is_point_within_circle center_lat center_lon radius_km point_lat point_lon
     = map_sum id (\<lambda>d. d \<le> radius_km) (haversine center_lat center_lon point_lat point_lon) \<and>
   (haversine center_lat center_lon point_lat point_lon = Inr d \<longrightarrow>
      is_point_within_circle center_lat center_lon radius_km point_lat point_lon
        = Inr (d \<le> radius_km)) \<and>
   (haversine center_lat center_lon point_lat point_lon = Inr radius_km \<longrightarrow>
      is_point_within_circle center_lat center_lon radius_km point_lat point_lon = Inr True)"
  by (cases "haversine center_lat center_lon point_lat point_lon")
    (simp_all add: is_point_within_circle_def)

theorem within_circle_iff_distance_le_radius_witness:
  "haversine 51.5 4.2 51.5 4.2 = Inr 0 \<and>
   is_point_within_circle 51.5 4.2 0 51.5 4.2 = Inr True \<and>
   is_point_within_circle 51.5 4.2 (- 1) 51.5 4.2 = Inr False"
proof -
  have h: "haversine 51.5 4.2 51.5 4.2 = Inr 0"
    by (rule haversine_same_point)
  have "is_point_within_circle 51.5 4.2 0 51.5 4.2 = Inr True"
    using within_circle_iff_distance_le_radius
      [where center_lat = "51.5" and center_lon = "4.2" and point_lat = "51.5"
         and point_lon = "4.2" and radius_km = 0 and d = 0] h
    by simp
  moreover have "is_point_within_circle 51.5 4.2 (- 1) 51.5 4.2 = Inr False"
    using within_circle_iff_distance_le_radius
      [where center_lat = "51.5" and center_lon = "4.2" and point_lat = "51.5"
         and point_lon = "4.2" and radius_km = "- 1" and d = 0] h
    by simp
  ultimately show ?thesis
    using h by simp
qed




section \<open>Batch prediction\<close>

lemma bind_err_simps:
  "bind_err (Inl e) f = Inl e" "bind_err (Inr x) f = f x"
  by (simp_all add: bind_err_def)

lemma predict_loop_Inr:
  "predict_loop rs t lats lons = Inr (la, lo) \<longleftrightarrow>
     (\<exists>ps. list_all2 (\<lambda>r p. predict_row r t = Inr p) rs ps \<and>
           la = lats @ map fst ps \<and> lo = lons @ map snd ps)"
proof (induction rs arbitrary: lats lons)
  case Nil
  then show ?case by auto
next
  case (Cons r rs)
  show ?case
  proof (cases "predict_row r t")
    case (Inl e)
    then show ?thesis by (simp add: list_all2_Cons1)
  next
    case (Inr p)
    obtain a b where p: "p = (a, b)" by (cases p)
    have "predict_loop (r # rs) t lats lons = predict_loop rs t (lats @ [a]) (lons @ [b])"
      using Inr p by simp
    also have "\<dots> = Inr (la, lo) \<longleftrightarrow>
      (\<exists>ps. list_all2 (\<lambda>r p. predict_row r t = Inr p) rs ps \<and>
           la = (lats @ [a]) @ map fst ps \<and> lo = (lons @ [b]) @ map snd ps)"
      by (rule Cons.IH)
    also have "\<dots> \<longleftrightarrow> (\<exists>ps. list_all2 (\<lambda>r p. predict_row r t = Inr p) (r # rs) ps \<and>
           la = lats @ map fst ps \<and> lo = lons @ map snd ps)"
    proof
      assume "\<exists>ps. list_all2 (\<lambda>r p. predict_row r t = Inr p) rs ps \<and>
           la = (lats @ [a]) @ map fst ps \<and> lo = (lons @ [b]) @ map snd ps"
      then obtain ps where "list_all2 (\<lambda>r p. predict_row r t = Inr p) rs ps"
        "la = (lats @ [a]) @ map fst ps" "lo = (lons @ [b]) @ map snd ps"
        by blast
      then have "list_all2 (\<lambda>r p. predict_row r t = Inr p) (r # rs) ((a, b) # ps) \<and>
           la = lats @ map fst ((a, b) # ps) \<and> lo = lons @ map snd ((a, b) # ps)"
        using Inr p by simp
      then show "\<exists>ps. list_all2 (\<lambda>r p. predict_row r t = Inr p) (r # rs) ps \<and>
           la = lats @ map fst ps \<and> lo = lons @ map snd ps"
        by blast
    next
      assume "\<exists>ps. list_all2 (\<lambda>r p. predict_row r t = Inr p) (r # rs) ps \<and>
           la = lats @ map fst ps \<and> lo = lons @ map snd ps"
      then obtain qs where q: "list_all2 (\<lambda>r p. predict_row r t = Inr p) (r # rs) qs"
        "la = lats @ map fst qs" "lo = lons @ map snd qs"
        by blast
      from q(1) obtain q' ps where qs: "qs = q' # ps" "predict_row r t = Inr q'"
        "list_all2 (\<lambda>r p. predict_row r t = Inr p) rs ps"
        by (auto simp: list_all2_Cons1)
      from qs(2) Inr p have "q' = (a, b)" by simp
      with q(2,3) qs(1,3)
      have "list_all2 (\<lambda>r p. predict_row r t = Inr p) rs ps \<and>
           la = (lats @ [a]) @ map fst ps \<and> lo = (lons @ [b]) @ map snd ps"
        by simp
      then show "\<exists>ps. list_all2 (\<lambda>r p. predict_row r t = Inr p) rs ps \<and>
           la = (lats @ [a]) @ map fst ps \<and> lo = (lons @ [b]) @ map snd ps"
        by blast
    qed
    finally show ?thesis .
  qed
qed


lemma zip_two_columns:
  fixes rs :: "row list" and ps :: "(cell \<times> cell) list"
  assumes "length rs = length ps"
  shows "map (\<lambda>(r, v). r(b \<mapsto> v)) (zip (map (\<lambda>(r, v). r(a \<mapsto> v)) (zip rs (map fst ps))) (map snd ps))
           = map (\<lambda>(r, p). r(a \<mapsto> fst p, b \<mapsto> snd p)) (zip rs ps)"
  using assms by (induction rs ps rule: list_induct2) simp_all

lemma predict_future_positions_ok:
  assumes "list_all2 (\<lambda>r p. predict_row r t = Inr p) (rows df) ps"
  shows "predict_future_positions df t =
     Inr (df\<lparr>columns := with_column (with_column (columns df) ''PREDICTED_LATITUDE'')
                            ''PREDICTED_LONGITUDE'',
              rows := map (\<lambda>(r, p). r(''PREDICTED_LATITUDE'' \<mapsto> fst p,
                                      ''PREDICTED_LONGITUDE'' \<mapsto> snd p))
                        (zip (rows df) ps)\<rparr>)"
proof -
  have len: "length (rows df) = length ps"
    using assms by (rule list_all2_lengthD)
  have "predict_loop (rows df) t [] [] = Inr (map fst ps, map snd ps)"
    unfolding predict_loop_Inr using assms by auto
  then show ?thesis
    by (simp add: predict_future_positions_def set_column_def len zip_two_columns)
qed

lemma predict_future_positions_D:
  assumes "predict_future_positions df t = Inr df'"
  shows "\<exists>ps. list_all2 (\<lambda>r p. predict_row r t = Inr p) (rows df) ps \<and>
     df' = df\<lparr>columns := with_column (with_column (columns df) ''PREDICTED_LATITUDE'')
                            ''PREDICTED_LONGITUDE'',
              rows := map (\<lambda>(r, p). r(''PREDICTED_LATITUDE'' \<mapsto> fst p,
                                      ''PREDICTED_LONGITUDE'' \<mapsto> snd p))
                        (zip (rows df) ps)\<rparr>"
proof (cases "predict_loop (rows df) t [] []")
  case (Inl e)
  with assms show ?thesis
    by (simp add: predict_future_positions_def)
next
  case (Inr q)
  obtain la lo where "q = (la, lo)" by (cases q)
  with Inr have "predict_loop (rows df) t [] [] = Inr (la, lo)" by simp
  then obtain ps where ps: "list_all2 (\<lambda>r p. predict_row r t = Inr p) (rows df) ps"
    using predict_loop_Inr [of "rows df" t "[]" "[]" la lo] by blast
  from predict_future_positions_ok [OF ps] assms ps show ?thesis
    by auto
qed


lemma vessel_lookup:
  "vessel m n la lo c s ''MMSI'' = Some (Num m)"
  "vessel m n la lo c s ''LATITUDE'' = Some (Num la)"
  "vessel m n la lo c s ''LONGITUDE'' = Some (Num lo)"
  "vessel m n la lo c s ''COG'' = Some (Num c)"
  "vessel m n la lo c s ''SOG'' = Some (Num s)"
  by (simp_all add: vessel_def)

lemma predict_row_vessel:
  "predict_row (vessel m n la lo c s) t =
     map_sum id (\<lambda>(a, b). (Num a, Num b)) (predict_position la lo c s t)"
  by (simp add: predict_row_def row_get_def vessel_lookup bind_err_simps
      predict_position_cells_def predict_position_Inr)

lemma predict_row_stationary_vessel:
  assumes "- 90 \<le> la" "la \<le> 90"
  shows "predict_row (vessel m n la lo c 0) t = Inr (Num la, Num lo)"
  using predict_position_zero_distance [OF assms, of 0 t lo c]
  by (simp add: predict_row_vessel)

lemma with_column_keys:
  "with_column (with_column keys_to_include ''PREDICTED_LATITUDE'') ''PREDICTED_LONGITUDE''
     = keys_to_include @ [''PREDICTED_LATITUDE'', ''PREDICTED_LONGITUDE'']"
  by (simp add: with_column_def keys_to_include_def)

lemma example_predicted_eq: "predict_future_positions example_frame 10 = Inr example_predicted"
proof -
  have "list_all2 (\<lambda>r p. predict_row r 10 = Inr p) (rows example_frame)
          [(Num 0, Num 0), (Num 10, Num 10)]"
    by (simp add: example_frame_def predict_row_stationary_vessel)
  from predict_future_positions_ok [OF this] show ?thesis
    by (simp add: example_frame_def example_predicted_def with_column_keys)
qed

text \<open>
  Claim C9. When \<^verbatim>\<open>predict_future_positions\<close> returns, the frame has the same rows
  in the same order; row \<open>i\<close> of the result is row \<open>i\<close> of the input with the two
  predicted cells set to what the loop body computes from that row alone, and every
  other cell of the row is unchanged.
\<close>

theorem predict_future_positions_is_per_record_map:
  assumes "predict_future_positions df time_minutes = Inr df'"
  shows "length (rows df') = length (rows df) \<and>
         (\<forall>i<length (rows df). \<exists>plat plon.
            predict_row (rows df ! i) time_minutes = Inr (plat, plon) \<and>
            rows df' ! i = (rows df ! i)(''PREDICTED_LATITUDE'' \<mapsto> plat,
                                         ''PREDICTED_LONGITUDE'' \<mapsto> plon) \<and>
            (\<forall>k. k \<noteq> ''PREDICTED_LATITUDE'' \<and> k \<noteq> ''PREDICTED_LONGITUDE'' \<longrightarrow>
                 (rows df' ! i) k = (rows df ! i) k))"
proof -
  from predict_future_positions_D [OF assms]
  obtain ps where ps: "list_all2 (\<lambda>r p. predict_row r time_minutes = Inr p) (rows df) ps"
    and r: "rows df' = map (\<lambda>(r, p). r(''PREDICTED_LATITUDE'' \<mapsto> fst p,
                                       ''PREDICTED_LONGITUDE'' \<mapsto> snd p)) (zip (rows df) ps)"
    by auto
  have len: "length ps = length (rows df)"
    using ps by (simp add: list_all2_lengthD)
  have "\<exists>plat plon.
            predict_row (rows df ! i) time_minutes = Inr (plat, plon) \<and>
            rows df' ! i = (rows df ! i)(''PREDICTED_LATITUDE'' \<mapsto> plat,
                                         ''PREDICTED_LONGITUDE'' \<mapsto> plon) \<and>
            (\<forall>k. k \<noteq> ''PREDICTED_LATITUDE'' \<and> k \<noteq> ''PREDICTED_LONGITUDE'' \<longrightarrow>
                 (rows df' ! i) k = (rows df ! i) k)"
    if i: "i < length (rows df)" for i
  proof -
    have "predict_row (rows df ! i) time_minutes = Inr (ps ! i)"
      using list_all2_nthD [OF ps i] .
    moreover have "rows df' ! i = (rows df ! i)(''PREDICTED_LATITUDE'' \<mapsto> fst (ps ! i),
                                         ''PREDICTED_LONGITUDE'' \<mapsto> snd (ps ! i))"
      using i len by (simp add: r)
    ultimately show ?thesis
      by (intro exI [of _ "fst (ps ! i)"] exI [of _ "snd (ps ! i)"]) simp
  qed
  then show ?thesis
    using len by (simp add: r)
qed

theorem predict_future_positions_is_per_record_map_witness:
  "predict_future_positions example_frame 10 = Inr example_predicted \<and>
   length (rows example_predicted) = length (rows example_frame) \<and>
   (1::nat) < length (rows example_frame) \<and>
   ''MMSI'' \<noteq> ''PREDICTED_LATITUDE'' \<and> ''MMSI'' \<noteq> ''PREDICTED_LONGITUDE'' \<and>
   (rows example_predicted ! 1) ''MMSI'' = (rows example_frame ! 1) ''MMSI'' \<and>
   predict_row (rows example_frame ! 1) 10 = Inr (Num 10, Num 10) \<and>
   rows example_predicted ! 1 = (rows example_frame ! 1)(''PREDICTED_LATITUDE'' \<mapsto> Num 10,
                                                          ''PREDICTED_LONGITUDE'' \<mapsto> Num 10)"
proof -
  have h: "predict_future_positions example_frame 10 = Inr example_predicted"
    by (rule example_predicted_eq)
  have i: "(1::nat) < length (rows example_frame)"
    by (simp add: example_frame_def)
  from predict_future_positions_is_per_record_map [OF h] i
  have "\<exists>plat plon.
            predict_row (rows example_frame ! 1) 10 = Inr (plat, plon) \<and>
            rows example_predicted ! 1 = (rows example_frame ! 1)(''PREDICTED_LATITUDE'' \<mapsto> plat,
                                         ''PREDICTED_LONGITUDE'' \<mapsto> plon) \<and>
            (\<forall>k. k \<noteq> ''PREDICTED_LATITUDE'' \<and> k \<noteq> ''PREDICTED_LONGITUDE'' \<longrightarrow>
                 (rows example_predicted ! 1) k = (rows example_frame ! 1) k)"
    and l: "length (rows example_predicted) = length (rows example_frame)"
    by blast+
  then obtain plat plon where
    p: "predict_row (rows example_frame ! 1) 10 = Inr (plat, plon)"
    and q: "rows example_predicted ! 1 = (rows example_frame ! 1)(''PREDICTED_LATITUDE'' \<mapsto> plat,
                                         ''PREDICTED_LONGITUDE'' \<mapsto> plon)"
    and k: "\<forall>k. k \<noteq> ''PREDICTED_LATITUDE'' \<and> k \<noteq> ''PREDICTED_LONGITUDE'' \<longrightarrow>
                 (rows example_predicted ! 1) k = (rows example_frame ! 1) k"
    by blast
  have "predict_row (rows example_frame ! 1) 10 = Inr (Num 10, Num 10)"
    by (simp add: example_frame_def predict_row_stationary_vessel)
  with p have "plat = Num 10" "plon = Num 10"
    by simp_all
  with p q k h i l show ?thesis
    by simp
qed

section \<open>No validation of the inputs\<close>

lemma predict_position_origin_north:
  assumes "- (pi / 2) \<le> speed / 60 * time_minutes / 3440.065"
    and "speed / 60 * time_minutes / 3440.065 \<le> pi / 2"
  shows "predict_position 0 longitude 0 speed time_minutes =
           Inr (degrees (speed / 60 * time_minutes / 3440.065), longitude)"
proof -
  let ?d = "speed / 60 * time_minutes / 3440.065"
  have a: "arcsin (sin ?d) = ?d"
    using assms by (rule arcsin_sin)
  have "0 \<le> cos ?d"
    using assms by (rule cos_ge_zero)
  then have b: "atan2 0 (cos ?d) = 0"
    by (rule atan2_zero_nonneg)
  have "predict_position 0 longitude 0 speed time_minutes =
          Inr (degrees (arcsin (sin ?d)), degrees (radians longitude + atan2 0 (cos ?d)))"
    unfolding predict_position_Inr by (simp add: radians_def)
  then show ?thesis
    by (simp only: a b add_0_right degrees_radians)
qed

lemma scenario_E_speeds:
  "- (pi / 2) \<le> (- 1 / 60 * 10 / 3440.065 :: real)" "(- 1 / 60 * 10 / 3440.065 :: real) \<le> pi / 2"
  "- (pi / 2) \<le> (12 / 60 * 10 / 3440.065 :: real)" "(12 / 60 * 10 / 3440.065 :: real) \<le> pi / 2"
proof -
  have p: "1 \<le> pi / 2" using pi_ge_two by simp
  have "- 1 \<le> (- 1 / 60 * 10 / 3440.065 :: real)" "(- 1 / 60 * 10 / 3440.065 :: real) \<le> 1"
    "- 1 \<le> (12 / 60 * 10 / 3440.065 :: real)" "(12 / 60 * 10 / 3440.065 :: real) \<le> 1"
    by simp_all
  with p show "- (pi / 2) \<le> (- 1 / 60 * 10 / 3440.065 :: real)"
    "(- 1 / 60 * 10 / 3440.065 :: real) \<le> pi / 2"
    "- (pi / 2) \<le> (12 / 60 * 10 / 3440.065 :: real)" "(12 / 60 * 10 / 3440.065 :: real) \<le> pi / 2"
    by linarith+
qed

lemma negative_speed_position:
  "predict_position 0 0 0 (- 1) 10 = Inr (degrees (- 1 / 60 * 10 / 3440.065), 0)"
  by (rule predict_position_origin_north) (rule scenario_E_speeds)+

lemma scenario_E_predicted_eq:
  "predict_future_positions scenario_E_frame 10 = Inr scenario_E_predicted"
proof -
  have "predict_row (vessel 111 ''A'' 0 0 0 (- 1)) 10
          = Inr (Num (degrees (- 1 / 60 * 10 / 3440.065)), Num 0)"
    unfolding predict_row_vessel negative_speed_position by simp
  moreover have "predict_position 0 0 0 12 10 = Inr (degrees (12 / 60 * 10 / 3440.065), 0)"
    by (rule predict_position_origin_north) (rule scenario_E_speeds)+
  then have "predict_row (vessel 222 ''B'' 0 0 0 12) 10
          = Inr (Num (degrees (12 / 60 * 10 / 3440.065)), Num 0)"
    unfolding predict_row_vessel by simp
  ultimately have "list_all2 (\<lambda>r p. predict_row r 10 = Inr p) (rows scenario_E_frame)
          [(Num (degrees (- 1 / 60 * 10 / 3440.065)), Num 0),
           (Num (degrees (12 / 60 * 10 / 3440.065)), Num 0)]"
    by (simp add: scenario_E_frame_def)
  from predict_future_positions_ok [OF this] show ?thesis
    by (simp add: scenario_E_frame_def scenario_E_predicted_def with_column_keys)
qed


lemma predict_row_numbers:
  assumes "r ''LATITUDE'' = Some (Num lat)" "r ''LONGITUDE'' = Some (Num lon)"
    "r ''COG'' = Some (Num cog)" "r ''SOG'' = Some (Num sog)"
  shows "predict_row r t
           = map_sum id (\<lambda>(a, b). (Num a, Num b)) (predict_position lat lon cog sog t)"
  by (cases "predict_position lat lon cog sog t")
    (auto simp: predict_row_def row_get_def assms bind_err_simps predict_position_cells_def)

text \<open>
  Claim C2, as stated, fails: nothing in \<^verbatim>\<open>predict_position\<close> checks its inputs.
  With speed \<open>-1\<close> it returns the position reached by sailing backwards, and the
  batch of Scenario E keeps both of its records.
\<close>

theorem negative_speed_is_predicted:
  "predict_position 0 0 0 (- 1) 10 = Inr (degrees (- 1 / 60 * 10 / 3440.065), 0) \<and>
   predict_future_positions scenario_E_frame 10 = Inr scenario_E_predicted \<and>
   length (rows scenario_E_predicted) = 2 \<and>
   (rows scenario_E_predicted ! 0) ''SOG'' = Some (Num (- 1)) \<and>
   (rows scenario_E_predicted ! 0) ''PREDICTED_LATITUDE''
     = Some (Num (degrees (- 1 / 60 * 10 / 3440.065)))"
  using negative_speed_position scenario_E_predicted_eq
  by (simp add: scenario_E_predicted_def vessel_lookup)

text \<open>
  Claim C2, amended. Nothing validates the speed: whenever
  \<^verbatim>\<open>predict_future_positions\<close> returns, a record with a negative speed is kept in
  the batch, with the position \<^verbatim>\<open>predict_position\<close> computes from its fields as its
  predicted position.
\<close>

theorem negative_speed_is_kept:
  assumes "predict_future_positions df time_minutes = Inr df'"
    and "i < length (rows df)"
    and "(rows df ! i) ''LATITUDE'' = Some (Num lat)"
    and "(rows df ! i) ''LONGITUDE'' = Some (Num lon)"
    and "(rows df ! i) ''COG'' = Some (Num cog)"
    and "(rows df ! i) ''SOG'' = Some (Num sog)"
    and "sog < 0"
  shows "length (rows df') = length (rows df) \<and>
         (rows df' ! i) ''SOG'' = Some (Num sog) \<and>
         (\<exists>plat plon. predict_position lat lon cog sog time_minutes = Inr (plat, plon) \<and>
            rows df' ! i = (rows df ! i)(''PREDICTED_LATITUDE'' \<mapsto> Num plat,
                                         ''PREDICTED_LONGITUDE'' \<mapsto> Num plon))"
proof -
  from predict_future_positions_D [OF assms(1)]
  obtain ps where ps: "list_all2 (\<lambda>r p. predict_row r time_minutes = Inr p) (rows df) ps"
    and r: "rows df' = map (\<lambda>(r, p). r(''PREDICTED_LATITUDE'' \<mapsto> fst p,
                                       ''PREDICTED_LONGITUDE'' \<mapsto> snd p)) (zip (rows df) ps)"
    by auto
  have len: "length ps = length (rows df)"
    using ps by (simp add: list_all2_lengthD)
  have p: "predict_row (rows df ! i) time_minutes = Inr (ps ! i)"
    using list_all2_nthD [OF ps assms(2)] .
  have "map_sum id (\<lambda>(a, b). (Num a, Num b)) (predict_position lat lon cog sog time_minutes)
          = Inr (ps ! i)"
    using p predict_row_numbers [OF assms(3-6), of time_minutes] by simp
  then obtain plat plon where q: "predict_position lat lon cog sog time_minutes = Inr (plat, plon)"
    and e: "ps ! i = (Num plat, Num plon)"
    by (cases "predict_position lat lon cog sog time_minutes") auto
  have n: "rows df' ! i = (rows df ! i)(''PREDICTED_LATITUDE'' \<mapsto> Num plat,
                                         ''PREDICTED_LONGITUDE'' \<mapsto> Num plon)"
    using assms(2) len e by (simp add: r)
  have "(rows df' ! i) ''SOG'' = Some (Num sog)"
    unfolding n using assms(6) by simp
  with q n len r show ?thesis
    by auto
qed

theorem negative_speed_is_kept_witness:
  "predict_future_positions scenario_E_frame 10 = Inr scenario_E_predicted \<and>
   (0::nat) < length (rows scenario_E_frame) \<and>
   (rows scenario_E_frame ! 0) ''SOG'' = Some (Num (- 1)) \<and> (- 1 :: real) < 0 \<and>
   length (rows scenario_E_predicted) = length (rows scenario_E_frame) \<and>
   (rows scenario_E_predicted ! 0) ''SOG'' = Some (Num (- 1)) \<and>
   (\<exists>plat plon. predict_position 0 0 0 (- 1) 10 = Inr (plat, plon) \<and>
      rows scenario_E_predicted ! 0
        = (rows scenario_E_frame ! 0)(''PREDICTED_LATITUDE'' \<mapsto> Num plat,
                                      ''PREDICTED_LONGITUDE'' \<mapsto> Num plon))"
proof -
  have h: "predict_future_positions scenario_E_frame 10 = Inr scenario_E_predicted"
    by (rule scenario_E_predicted_eq)
  have i: "(0::nat) < length (rows scenario_E_frame)"
    by (simp add: scenario_E_frame_def)
  have c: "(rows scenario_E_frame ! 0) ''LATITUDE'' = Some (Num 0)"
    "(rows scenario_E_frame ! 0) ''LONGITUDE'' = Some (Num 0)"
    "(rows scenario_E_frame ! 0) ''COG'' = Some (Num 0)"
    "(rows scenario_E_frame ! 0) ''SOG'' = Some (Num (- 1))"
    by (simp_all add: scenario_E_frame_def vessel_lookup)
  have s: "(- 1 :: real) < 0"
    by simp
  from negative_speed_is_kept [OF h i c s] h i c(4) s show ?thesis
    by blast
qed


section \<open>Fetching and pairing\<close>

lemma select_row_vessel: "select_row keys_to_include (vessel m n la lo c s) = vessel m n la lo c s"
  by (rule ext) (simp add: select_row_def keys_to_include_def vessel_def)

lemma vessel_has_keys: "k \<in> set keys_to_include \<Longrightarrow> vessel m n la lo c s k \<noteq> None"
  by (auto simp: keys_to_include_def vessel_def)

lemma get_vessel_data_examples:
  "get_vessel_data example_first_response = Inr example_frame"
  "get_vessel_data example_second_response = Inr example_second_frame"
proof -
  have f: "filter (\<lambda>k. \<not> list_ex (\<lambda>r. r k \<noteq> None) (vessel m n la lo c s # rs)) keys_to_include = []"
    for m n la lo c s rs
    by (simp add: filter_empty_conv vessel_has_keys)
  show "get_vessel_data example_first_response = Inr example_frame"
    unfolding get_vessel_data_def example_first_response_def api_result.case f
    by (simp add: example_frame_def select_row_vessel)
  show "get_vessel_data example_second_response = Inr example_second_frame"
    unfolding get_vessel_data_def example_second_response_def api_result.case f
    by (simp add: example_second_frame_def select_row_vessel)
qed

lemma set_column_aligned_nth:
  assumes "i < length (rows df)"
  shows "rows (set_column_aligned df name series) ! i =
           (rows df ! i)(name \<mapsto> (if i < length series then series ! i else NaN))"
  using assms by (simp add: set_column_aligned_def nth_enumerate_eq)

lemma set_column_aligned_length: "length (rows (set_column_aligned df name series)) = length (rows df)"
  by (simp add: set_column_aligned_def)

lemma pair_new_positions_D:
  assumes "pair_new_positions predicted new = Inr paired"
  shows "paired =
     set_column_aligned
       (set_column_aligned predicted ''NEW_LATITUDE''
          (map (\<lambda>r. case r ''LATITUDE'' of None \<Rightarrow> NaN | Some v \<Rightarrow> v) (rows new)))
       ''NEW_LONGITUDE''
       (map (\<lambda>r. case r ''LONGITUDE'' of None \<Rightarrow> NaN | Some v \<Rightarrow> v) (rows new))"
  using assms
  by (simp add: pair_new_positions_def get_column_def split: if_splits)


lemma pair_new_positions_examples:
  "pair_new_positions example_predicted example_second_frame = Inr example_paired"
  by (simp add: pair_new_positions_def get_column_def example_second_frame_def
      example_predicted_def example_paired_def set_column_aligned_def with_column_def
      keys_to_include_def vessel_lookup enumerate_eq_zip upt_rec [of 0] upt_rec [of 1])

text \<open>
  Claim C1, as stated, fails: the second fetch is attached by row position and no
  vessel id is compared. When the second fetch lists the two vessels in the opposite
  order, the row of vessel 111 is paired with the later position of vessel 222.
\<close>

theorem pairing_ignores_vessel_id:
  "get_vessel_data example_first_response = Inr example_frame \<and>
   predict_future_positions example_frame 10 = Inr example_predicted \<and>
   get_vessel_data example_second_response = Inr example_second_frame \<and>
   pair_new_positions example_predicted example_second_frame = Inr example_paired \<and>
   (rows example_paired ! 0) ''MMSI'' = Some (Num 111) \<and>
   (rows example_paired ! 0) ''NEW_LATITUDE'' = (rows example_second_frame ! 0) ''LATITUDE'' \<and>
   (rows example_paired ! 0) ''NEW_LONGITUDE'' = (rows example_second_frame ! 0) ''LONGITUDE'' \<and>
   (rows example_second_frame ! 0) ''MMSI'' = Some (Num 222)"
  using get_vessel_data_examples example_predicted_eq pair_new_positions_examples
  by (simp add: example_paired_def example_second_frame_def vessel_lookup)

text \<open>
  Claim C1, amended. The prediction in row \<open>i\<close> is paired with the observation in row
  \<open>i\<close> of the second fetch, whatever vessel that row reports: the new latitude and
  longitude of row \<open>i\<close> are those of row \<open>i\<close> of the second fetch, NaN when the
  second fetch has no row \<open>i\<close>, and every other cell of the row (the vessel id, the
  prediction) stays that of the first fetch. The two belong to the same vessel only
  when the second fetch reports that vessel at the same position of its list.
\<close>

theorem pairing_is_by_row_position:
  assumes "pair_new_positions predicted new = Inr paired" and "i < length (rows predicted)"
  shows "(\<forall>k. k \<noteq> ''NEW_LATITUDE'' \<and> k \<noteq> ''NEW_LONGITUDE'' \<longrightarrow>
              (rows paired ! i) k = (rows predicted ! i) k) \<and>
         (i < length (rows new) \<longrightarrow>
            (rows paired ! i) ''NEW_LATITUDE''
              = Some (case (rows new ! i) ''LATITUDE'' of None \<Rightarrow> NaN | Some v \<Rightarrow> v) \<and>
            (rows paired ! i) ''NEW_LONGITUDE''
              = Some (case (rows new ! i) ''LONGITUDE'' of None \<Rightarrow> NaN | Some v \<Rightarrow> v)) \<and>
         (length (rows new) \<le> i \<longrightarrow>
            (rows paired ! i) ''NEW_LATITUDE'' = Some NaN \<and>
            (rows paired ! i) ''NEW_LONGITUDE'' = Some NaN)"
proof -
  let ?lat = "map (\<lambda>r. case r ''LATITUDE'' of None \<Rightarrow> NaN | Some v \<Rightarrow> v) (rows new)"
  let ?lon = "map (\<lambda>r. case r ''LONGITUDE'' of None \<Rightarrow> NaN | Some v \<Rightarrow> v) (rows new)"
  let ?mid = "set_column_aligned predicted ''NEW_LATITUDE'' ?lat"
  have p: "paired = set_column_aligned ?mid ''NEW_LONGITUDE'' ?lon"
    using assms(1) by (rule pair_new_positions_D)
  have i: "i < length (rows ?mid)"
    using assms(2) by (simp add: set_column_aligned_length)
  have "rows paired ! i =
          (rows predicted ! i)
            (''NEW_LATITUDE'' \<mapsto> (if i < length ?lat then ?lat ! i else NaN),
             ''NEW_LONGITUDE'' \<mapsto> (if i < length ?lon then ?lon ! i else NaN))"
    unfolding p set_column_aligned_nth [OF i] set_column_aligned_nth [OF assms(2)] ..
  then show ?thesis
    by simp
qed

lemma pair_short_example:
  "\<exists>paired. pair_new_positions example_predicted example_short_frame = Inr paired"
  by (simp add: pair_new_positions_def get_column_def example_short_frame_def
      keys_to_include_def)

theorem pairing_is_by_row_position_witness:
  "pair_new_positions example_predicted example_second_frame = Inr example_paired \<and>
   (0::nat) < length (rows example_predicted) \<and> (0::nat) < length (rows example_second_frame) \<and>
   (rows example_paired ! 0) ''MMSI'' = (rows example_predicted ! 0) ''MMSI'' \<and>
   (rows example_paired ! 0) ''NEW_LATITUDE'' = Some (Num 10) \<and>
   (rows example_paired ! 0) ''NEW_LONGITUDE'' = Some (Num 10) \<and>
   (\<exists>paired. pair_new_positions example_predicted example_short_frame = Inr paired \<and>
      (1::nat) < length (rows example_predicted) \<and> length (rows example_short_frame) \<le> 1 \<and>
      (rows paired ! 1) ''MMSI'' = Some (Num 222) \<and>
      (rows paired ! 1) ''NEW_LATITUDE'' = Some NaN \<and>
      (rows paired ! 1) ''NEW_LONGITUDE'' = Some NaN)"
proof -
  have h: "pair_new_positions example_predicted example_second_frame = Inr example_paired"
    by (rule pair_new_positions_examples)
  have l: "(0::nat) < length (rows example_predicted)" "(1::nat) < length (rows example_predicted)"
    by (simp_all add: example_predicted_def)
  obtain paired where s: "pair_new_positions example_predicted example_short_frame = Inr paired"
    using pair_short_example by blast
  have a: "(rows example_paired ! 0) ''MMSI'' = (rows example_predicted ! 0) ''MMSI'' \<and>
   (rows example_paired ! 0) ''NEW_LATITUDE'' = Some (Num 10) \<and>
   (rows example_paired ! 0) ''NEW_LONGITUDE'' = Some (Num 10)"
    using pairing_is_by_row_position [OF h l(1)]
    by (simp add: example_second_frame_def vessel_lookup)
  have b: "(rows paired ! 1) ''MMSI'' = Some (Num 222) \<and>
      (rows paired ! 1) ''NEW_LATITUDE'' = Some NaN \<and>
      (rows paired ! 1) ''NEW_LONGITUDE'' = Some NaN"
    using pairing_is_by_row_position [OF s l(2)]
    by (simp add: example_short_frame_def example_predicted_def vessel_lookup)
  from h l s a b show ?thesis
    by (auto simp: example_second_frame_def example_short_frame_def)
qed

section \<open>A failed fetch\<close>

lemma error_frame_predict:
  "predict_future_positions \<lparr>columns = [''error''], rows = [[''error'' \<mapsto> Str msg]]\<rparr> t
     = Inl (KeyError ''LATITUDE'')"
  by (simp add: predict_future_positions_def predict_row_def row_get_def bind_err_simps)

lemma error_frame_column:
  "get_column \<lparr>columns = [''error''], rows = [[''error'' \<mapsto> Str msg]]\<rparr> ''LATITUDE''
     = Inl (KeyError ''LATITUDE'')"
  by (simp add: get_column_def)

text \<open>
  Claim C3 against the code. On a \<^verbatim>\<open>RequestException\<close> \<^verbatim>\<open>get_vessel_data\<close> returns
  a frame of one row and one column, which is not empty, so that neither caller takes
  its ``no data'' branch: prediction runs on the failure frame and raises
  \<^verbatim>\<open>KeyError\<close>; a failure of the second fetch raises it in the pairing step.
\<close>

theorem failed_fetch_is_not_empty:
  "get_vessel_data (RequestException e)
     = Inr \<lparr>columns = [''error''], rows = [[''error'' \<mapsto> Str (''API call failed: '' @ e)]]\<rparr> \<and>
   \<not> empty_df \<lparr>columns = [''error''],
                rows = [[''error'' \<mapsto> Str (''API call failed: '' @ e)]]\<rparr> \<and>
   retrieve_iteration (RequestException e) second prediction_time_minutes radius_km
     = Inl (KeyError ''LATITUDE'') \<and>
   main_program (RequestException e) second prediction_time_minutes radius_km
     = Inl (KeyError ''LATITUDE'') \<and>
   retrieve_iteration example_first_response (RequestException e) 10 radius_km
     = Inl (KeyError ''LATITUDE'') \<and>
   main_program example_first_response (RequestException e) 10 radius_km
     = Inl (KeyError ''LATITUDE'')"
proof -
  have g: "get_vessel_data (RequestException e)
     = Inr \<lparr>columns = [''error''], rows = [[''error'' \<mapsto> Str (''API call failed: '' @ e)]]\<rparr>"
    by (simp add: get_vessel_data_def)
  have n: "\<not> empty_df \<lparr>columns = [''error''],
                rows = [[''error'' \<mapsto> Str (''API call failed: '' @ e)]]\<rparr>"
    by (simp add: empty_df_def)
  have n1: "\<not> empty_df example_frame"
    by (simp add: empty_df_def example_frame_def keys_to_include_def)
  have r1: "retrieve_iteration (RequestException e) second prediction_time_minutes radius_km
          = Inl (KeyError ''LATITUDE'')"
    by (simp add: retrieve_iteration_def get_vessel_data_def empty_df_def error_frame_predict)
  have m1: "main_program (RequestException e) second prediction_time_minutes radius_km
          = Inl (KeyError ''LATITUDE'')"
    by (simp add: main_program_def get_vessel_data_def empty_df_def error_frame_predict)
  have r2: "retrieve_iteration example_first_response (RequestException e) 10 radius_km
          = Inl (KeyError ''LATITUDE'')"
    using n1
    by (simp add: retrieve_iteration_def get_vessel_data_examples example_predicted_eq
        get_vessel_data_def [of "RequestException e"] empty_df_def [of "\<lparr>columns = _, rows = _\<rparr>"]
        pair_new_positions_def error_frame_column)
  have m2: "main_program example_first_response (RequestException e) 10 radius_km
          = Inl (KeyError ''LATITUDE'')"
    using n1
    by (simp add: main_program_def get_vessel_data_examples example_predicted_eq
        get_vessel_data_def [of "RequestException e"] empty_df_def [of "\<lparr>columns = _, rows = _\<rparr>"]
        pair_new_positions_def error_frame_column)
  from g n r1 m1 r2 m2 show ?thesis
    by (simp only: simp_thms)
qed

end
